theory Spec2Isabelle
  imports Main
begin

section \<open>Template library modal layout (library-layout.js)\<close>

text \<open>
  The layout of the template library modal swaps sub-views into four regions: the
  logo, tools and menu regions of the modal header and the content region of the
  modal itself. The methods of the layout are state transformers on a record that
  holds the four regions; creating a view (\<^verbatim>\<open>new View(options)\<close>) is a
  constructor applied to the options the source passes.
\<close>

subsection \<open>Sub-views\<close>

text \<open>
  A plain JavaScript object of string properties, and the attributes of a Backbone
  model: \<^verbatim>\<open>model.get(key)\<close> is \<open>map_of model key\<close>, with \<open>None\<close> for
  \<^verbatim>\<open>undefined\<close>.
\<close>

type_synonym attributes = "(string \<times> string) list"

text \<open>
  The click handler of the logo: \<^verbatim>\<open>$e.run( 'library/open', { toDefault: true } )\<close>,
  a command name and its boolean arguments.
\<close>

datatype command = Run string "(string \<times> bool) list"

record logo_options =
  title :: string
  click :: command

text \<open>
  The views the layout creates, each with the options its constructor receives
  (lines 1-9 of the source, and the logo view of the base layout).
\<close>

datatype view =
    TemplateLibraryHeaderActionsView
  | TemplateLibraryHeaderMenuView
  | TemplateLibraryHeaderPreviewView attributes
  | TemplateLibraryHeaderBackView
  | TemplateLibraryCollectionView "attributes list"
  | TemplateLibrarySaveTemplateView attributes
  | TemplateLibraryImportView
  | TemplateLibraryConnectView attributes
  | TemplateLibraryPreviewView "string option"
  | HeaderLogoView logo_options

subsection \<open>Regions\<close>

text \<open>
  A region holds at most one view. The field \<open>destroyed\<close> lists the views the region
  has released so far, oldest first.
\<close>

record region =
  currentView :: "view option"
  destroyed :: "view list"

definition occupant :: "region \<Rightarrow> view list" where
  "occupant r = (case currentView r of None \<Rightarrow> [] | Some w \<Rightarrow> [w])"

text \<open>
  Modelled from the spec: \<^verbatim>\<open>Region.show(view)\<close> of the view library, which is not
  among the sources. It destroys the current occupant if present and installs
  \<open>view\<close>; it has no error condition.
\<close>

definition Region_show :: "view \<Rightarrow> region \<Rightarrow> region" where
  "Region_show v r = \<lparr>currentView = Some v, destroyed = destroyed r @ occupant r\<rparr>"

text \<open>
  Modelled from the spec: \<^verbatim>\<open>Region.reset()\<close> of the view library, which is not
  among the sources. It destroys the current occupant if present and leaves the
  region empty.
\<close>

definition Region_reset :: "region \<Rightarrow> region" where
  "Region_reset r = \<lparr>currentView = None, destroyed = destroyed r @ occupant r\<rparr>"

text \<open>A sequence of \<^verbatim>\<open>show\<close> calls on one region, in order.\<close>

fun show_all :: "region \<Rightarrow> view list \<Rightarrow> region" where
  "show_all r [] = r"
| "show_all r (v # vs) = show_all (Region_show v r) vs"

definition empty_region :: region where
  "empty_region = \<lparr>currentView = None, destroyed = []\<rparr>"

subsection \<open>The layout and its regions\<close>

text \<open>
  The layout owns the content region (\<^verbatim>\<open>this.modalContent\<close>); its header view
  (\<^verbatim>\<open>this.getHeaderView()\<close>) owns the logo, tools and menu regions. The field
  \<open>calls\<close> lists the calls made on the regions, in the order the layout made them.
\<close>

datatype region_name = LogoArea | Tools | MenuArea | ModalContent

datatype call = ShowCall region_name view | ResetCall region_name

record layout =
  logoArea :: region
  tools :: region
  menuArea :: region
  modalContent :: region
  calls :: "call list"

definition logoArea_show :: "view \<Rightarrow> layout \<Rightarrow> layout" where
  "logoArea_show v this =
     this\<lparr>logoArea := Region_show v (logoArea this), calls := calls this @ [ShowCall LogoArea v]\<rparr>"

definition tools_show :: "view \<Rightarrow> layout \<Rightarrow> layout" where
  "tools_show v this =
     this\<lparr>tools := Region_show v (tools this), calls := calls this @ [ShowCall Tools v]\<rparr>"

definition menuArea_show :: "view \<Rightarrow> layout \<Rightarrow> layout" where
  "menuArea_show v this =
     this\<lparr>menuArea := Region_show v (menuArea this), calls := calls this @ [ShowCall MenuArea v]\<rparr>"

definition menuArea_reset :: "layout \<Rightarrow> layout" where
  "menuArea_reset this =
     this\<lparr>menuArea := Region_reset (menuArea this), calls := calls this @ [ResetCall MenuArea]\<rparr>"

definition modalContent_show :: "view \<Rightarrow> layout \<Rightarrow> layout" where
  "modalContent_show v this =
     this\<lparr>modalContent := Region_show v (modalContent this),
          calls := calls this @ [ShowCall ModalContent v]\<rparr>"

definition initial_layout :: layout where
  "initial_layout =
     \<lparr>logoArea = empty_region, tools = empty_region, menuArea = empty_region,
      modalContent = empty_region, calls = []\<rparr>"

subsection \<open>Translations\<close>

text \<open>
  Modelled from the spec: the translation function \<^verbatim>\<open>__( text, domain )\<close>, which is
  not among the sources. The spec names the labels by their source text
  ("Go Pro", "Go Expert"), which is what the function returns when no translation
  is loaded.
\<close>

definition gettext :: "string \<Rightarrow> string \<Rightarrow> string" where
  "gettext text domain = text"

subsection \<open>Methods of the layout\<close>

definition getLogoOptions :: logo_options where
  "getLogoOptions =
     \<lparr>title = gettext ''Library'' ''elementor'',
      click = Run ''library/open'' [(''toDefault'', True)]\<rparr>"

text \<open>
  Modelled from the spec: \<^verbatim>\<open>showLogo()\<close> of the base modal layout, which is not
  among the sources. It shows the logo view, built from the logo options, in the
  logo region.
\<close>

definition showLogo :: "layout \<Rightarrow> layout" where
  "showLogo this = logoArea_show (HeaderLogoView getLogoOptions) this"

definition setHeaderDefaultParts :: "layout \<Rightarrow> layout" where
  "setHeaderDefaultParts this =
     (let this = tools_show TemplateLibraryHeaderActionsView this;
          this = menuArea_show TemplateLibraryHeaderMenuView this
      in showLogo this)"

definition showTemplatesView :: "attributes list \<Rightarrow> layout \<Rightarrow> layout" where
  "showTemplatesView templatesCollection this =
     modalContent_show (TemplateLibraryCollectionView templatesCollection) this"

definition showImportView :: "layout \<Rightarrow> layout" where
  "showImportView this =
     (let this = menuArea_reset this;
          this = modalContent_show TemplateLibraryImportView this
      in logoArea_show TemplateLibraryHeaderBackView this)"

definition showConnectView :: "attributes \<Rightarrow> layout \<Rightarrow> layout" where
  "showConnectView args this =
     (let this = menuArea_reset this
      in modalContent_show (TemplateLibraryConnectView args) this)"

definition showSaveTemplateView :: "attributes \<Rightarrow> layout \<Rightarrow> layout" where
  "showSaveTemplateView elementModel this =
     (let this = menuArea_reset this
      in modalContent_show (TemplateLibrarySaveTemplateView elementModel) this)"

definition showPreviewView :: "attributes \<Rightarrow> layout \<Rightarrow> layout" where
  "showPreviewView templateModel this =
     (let this = modalContent_show (TemplateLibraryPreviewView (map_of templateModel ''url'')) this;
          this = menuArea_reset this;
          this = tools_show (TemplateLibraryHeaderPreviewView templateModel) this
      in logoArea_show TemplateLibraryHeaderBackView this)"

subsection \<open>Observations on layouts\<close>

text \<open>
  Two layouts show the same screen when each region holds the same view in both.
  Views are created anew by every transition, so they are compared by what they
  are and what they are bound to.
\<close>

definition same_screen :: "layout \<Rightarrow> layout \<Rightarrow> bool" where
  "same_screen s t =
     (currentView (logoArea s) = currentView (logoArea t) \<and>
      currentView (tools s) = currentView (tools t) \<and>
      currentView (menuArea s) = currentView (menuArea t) \<and>
      currentView (modalContent s) = currentView (modalContent t))"

text \<open>The calls a transition makes on the regions, in order.\<close>

definition calls_of :: "(layout \<Rightarrow> layout) \<Rightarrow> layout \<Rightarrow> call list" where
  "calls_of transition this = drop (length (calls this)) (calls (transition this))"

fun is_show :: "call \<Rightarrow> bool" where
  "is_show (ShowCall r v) = True"
| "is_show (ResetCall r) = False"

text \<open>The menu region is reset before any region is shown a view.\<close>

definition menu_reset_first :: "call list \<Rightarrow> bool" where
  "menu_reset_first cs = (ResetCall MenuArea \<in> set (takeWhile (\<lambda>c. \<not> is_show c) cs))"

text \<open>
  The default screen: the header holds its default parts and the content region a
  collection of templates.
\<close>

definition default_screen :: "layout \<Rightarrow> bool" where
  "default_screen this =
     (currentView (tools this) = Some TemplateLibraryHeaderActionsView \<and>
      currentView (menuArea this) = Some TemplateLibraryHeaderMenuView \<and>
      currentView (logoArea this) = Some (HeaderLogoView getLogoOptions) \<and>
      (case currentView (modalContent this) of
         Some (TemplateLibraryCollectionView c) \<Rightarrow> True
       | _ \<Rightarrow> False))"

subsection \<open>The action button of a template\<close>

text \<open>
  The template data the layout reads: the access level, a number (the tier of the
  template). Other properties are left to the extension of the record.
\<close>

record templateData =
  accessLevel :: int

text \<open>The value of a property of a JavaScript object: a string, null, or undefined.\<close>

datatype js_text = JUndefined | JNull | JString string

record render_data =
  buttonText :: js_text

text \<open>
  \<^verbatim>\<open>object[ key ]\<close> on an object literal with numeric keys: the value stored under
  the key, \<^verbatim>\<open>undefined\<close> when the object has no such key.
\<close>

definition property :: "(int \<times> js_text) list \<Rightarrow> int \<Rightarrow> js_text" where
  "property object key = (case map_of object key of None \<Rightarrow> JUndefined | Some v \<Rightarrow> v)"

text \<open>
  Modelled from the spec: \<^verbatim>\<open>elementor.hooks.applyFilters( name, value, data )\<close>,
  which is not among the sources: a named, ordered chain of filters, each given the
  value so far and the data, and returning the next value.
\<close>

type_synonym 'd filter_callback = "string \<Rightarrow> 'd \<Rightarrow> string"

type_synonym 'd hooks = "(string \<times> 'd filter_callback) list"

definition filters_of :: "'d hooks \<Rightarrow> string \<Rightarrow> 'd filter_callback list" where
  "filters_of hooks name = map snd (filter (\<lambda>h. fst h = name) hooks)"

definition applyFilters :: "'d hooks \<Rightarrow> string \<Rightarrow> string \<Rightarrow> 'd \<Rightarrow> string" where
  "applyFilters hooks name value data = foldl (\<lambda>v f. f v data) value (filters_of hooks name)"

definition action_button_filter :: string where
  "action_button_filter = ''elementor/editor/template-library/template/action-button''"

text \<open>Line 28: the view identifier computed from the access level.\<close>

definition actionButtonViewId :: "'a templateData_scheme \<Rightarrow> string" where
  "actionButtonViewId templateData =
     ''#tmpl-elementor-template-library-'' @
       (if accessLevel templateData \<noteq> 0 then ''get-pro-button'' else ''insert-button'')"

definition buttonTextsFromAccessLevel :: "(int \<times> js_text) list" where
  "buttonTextsFromAccessLevel =
     [(0, JNull),
      (1, JString (gettext ''Go Pro'' ''elementor'')),
      (2, JString (gettext ''Go Expert'' ''elementor''))]"

text \<open>
  The template cache (\<^verbatim>\<open>Marionette.TemplateCache.get\<close>) and the renderer
  (\<^verbatim>\<open>Marionette.Renderer.render\<close>) belong to the view library; the method takes
  them, and the registered filters, as parameters.
\<close>

definition getTemplateActionButton ::
  "('a templateData_scheme) hooks \<Rightarrow> (string \<Rightarrow> 't) \<Rightarrow> ('t \<Rightarrow> render_data \<Rightarrow> 'h) \<Rightarrow>
   'a templateData_scheme \<Rightarrow> 'h" where
  "getTemplateActionButton hooks TemplateCache_get Renderer_render templateData =
     (let viewId = actionButtonViewId templateData;
          viewId = applyFilters hooks action_button_filter viewId templateData;
          template = TemplateCache_get viewId
      in Renderer_render template
           \<lparr>buttonText = property buttonTextsFromAccessLevel (accessLevel templateData)\<rparr>)"

section \<open>Properties of regions\<close>

lemma occupant_Region_show: "occupant (Region_show v r) = [v]"
  by (simp add: occupant_def Region_show_def)

lemma show_all_snoc: "show_all r (vs @ [v]) = Region_show v (show_all r vs)"
  by (induction vs arbitrary: r) simp_all

lemma show_all_destroyed:
  "destroyed (show_all r (vs @ [v])) = destroyed r @ occupant r @ vs"
proof (induction vs arbitrary: r v rule: rev_induct)
  case Nil
  show ?case by (simp add: Region_show_def)
next
  case (snoc x xs)
  have "destroyed (show_all r ((xs @ [x]) @ [v]))
        = destroyed (show_all r (xs @ [x])) @ occupant (show_all r (xs @ [x]))"
    by (simp only: show_all_snoc) (simp add: Region_show_def)
  also have "\<dots> = (destroyed r @ occupant r @ xs) @ [x]"
    by (simp only: snoc.IH) (simp add: show_all_snoc occupant_Region_show)
  finally show ?case by simp
qed

lemma show_all_currentView: "currentView (show_all r (vs @ [v])) = Some v"
  by (simp add: show_all_snoc Region_show_def)

lemma take_as_snoc:
  assumes "0 < n" "n \<le> length vs"
  shows "take n vs = take (n - 1) vs @ [vs ! (n - 1)]"
proof -
  from assms have "n - 1 < length vs" and "Suc (n - 1) = n" by simp_all
  then show ?thesis using take_Suc_conv_app_nth [of "n - 1" vs] by simp
qed

lemma count_list_distinct: "distinct xs \<Longrightarrow> x \<in> set xs \<Longrightarrow> count_list xs x = 1"
  by (induction xs) auto

text \<open>
  C8. For every sequence \<open>vs\<close> of views shown in one region and every \<open>n\<close> from 1 to
  the length of the sequence: after the \<open>n\<close>-th call of \<^verbatim>\<open>show\<close> the occupant is
  the \<open>n\<close>-th view, and the region has released, in order and once each, what it
  held before the first call and the first \<open>n - 1\<close> views. In a region that starts
  empty and is shown distinct views, each of the first \<open>n - 1\<close> views is in the list
  of released views exactly once. \<^verbatim>\<open>show\<close> is a total function: it has no
  failing branch.
\<close>

theorem Region_show_sequence:
  "0 < n \<and> n \<le> length vs \<longrightarrow>
     currentView (show_all r (take n vs)) = Some (vs ! (n - 1)) \<and>
     destroyed (show_all r (take n vs)) = destroyed r @ occupant r @ take (n - 1) vs \<and>
     (distinct vs \<longrightarrow>
        (\<forall>w \<in> set (take (n - 1) vs).
           count_list (destroyed (show_all empty_region (take n vs))) w = 1))"
proof (intro impI)
  assume n: "0 < n \<and> n \<le> length vs"
  then have split: "take n vs = take (n - 1) vs @ [vs ! (n - 1)]"
    using take_as_snoc by blast
  have cur: "currentView (show_all r (take n vs)) = Some (vs ! (n - 1))"
    by (simp only: split show_all_currentView)
  have log: "destroyed (show_all r' (take n vs)) = destroyed r' @ occupant r' @ take (n - 1) vs"
    for r'
    by (simp only: split show_all_destroyed)
  have cnt: "count_list (destroyed (show_all empty_region (take n vs))) w = 1"
    if d: "distinct vs" and w: "w \<in> set (take (n - 1) vs)" for w
  proof -
    have "destroyed (show_all empty_region (take n vs)) = take (n - 1) vs"
      by (simp add: log empty_region_def occupant_def)
    moreover have "distinct (take (n - 1) vs)" using d by simp
    ultimately show ?thesis using w by (simp add: count_list_distinct)
  qed
  show "currentView (show_all r (take n vs)) = Some (vs ! (n - 1)) \<and>
     destroyed (show_all r (take n vs)) = destroyed r @ occupant r @ take (n - 1) vs \<and>
     (distinct vs \<longrightarrow>
        (\<forall>w \<in> set (take (n - 1) vs).
           count_list (destroyed (show_all empty_region (take n vs))) w = 1))"
    using cur log cnt by blast
qed

theorem Region_show_sequence_witness:
  "(0::nat) < 2 \<and> (2::nat) \<le> length [TemplateLibraryImportView, TemplateLibraryHeaderBackView,
       TemplateLibraryHeaderMenuView] \<and>
   distinct [TemplateLibraryImportView, TemplateLibraryHeaderBackView,
       TemplateLibraryHeaderMenuView] \<and>
   currentView (show_all empty_region (take 2 [TemplateLibraryImportView,
       TemplateLibraryHeaderBackView, TemplateLibraryHeaderMenuView]))
     = Some TemplateLibraryHeaderBackView \<and>
   destroyed (show_all empty_region (take 2 [TemplateLibraryImportView,
       TemplateLibraryHeaderBackView, TemplateLibraryHeaderMenuView]))
     = [TemplateLibraryImportView] \<and>
   count_list (destroyed (show_all empty_region (take 2 [TemplateLibraryImportView,
       TemplateLibraryHeaderBackView, TemplateLibraryHeaderMenuView])))
     TemplateLibraryImportView = 1"
  using Region_show_sequence [of 2 "[TemplateLibraryImportView, TemplateLibraryHeaderBackView,
       TemplateLibraryHeaderMenuView]" empty_region]
  by (simp add: empty_region_def occupant_def)

text \<open>
  C9. \<^verbatim>\<open>reset\<close> is idempotent. On an empty region it changes nothing: the
  region stays empty and no view is added to the released ones. On an occupied
  region it releases the occupant and leaves the region empty.
\<close>

theorem Region_reset_idempotent:
  "Region_reset (Region_reset r) = Region_reset r \<and>
   (currentView r = None \<longrightarrow> Region_reset r = r) \<and>
   (currentView r = Some v \<longrightarrow>
      Region_reset r = \<lparr>currentView = None, destroyed = destroyed r @ [v]\<rparr>)"
  by (simp add: Region_reset_def occupant_def)

theorem Region_reset_idempotent_witness:
  "currentView empty_region = None \<and> Region_reset empty_region = empty_region \<and>
   currentView \<lparr>currentView = Some TemplateLibraryImportView, destroyed = []\<rparr>
     = Some TemplateLibraryImportView \<and>
   Region_reset \<lparr>currentView = Some TemplateLibraryImportView, destroyed = []\<rparr>
     = \<lparr>currentView = None, destroyed = [TemplateLibraryImportView]\<rparr>"
  using Region_reset_idempotent [of empty_region]
    Region_reset_idempotent [of "\<lparr>currentView = Some TemplateLibraryImportView, destroyed = []\<rparr>"
       TemplateLibraryImportView]
  by (simp add: empty_region_def)

section \<open>Properties of the layout\<close>

lemmas region_call_defs =
  logoArea_show_def tools_show_def menuArea_show_def menuArea_reset_def modalContent_show_def

lemmas transition_defs =
  setHeaderDefaultParts_def showLogo_def showTemplatesView_def showImportView_def
  showConnectView_def showSaveTemplateView_def showPreviewView_def

lemma currentView_Region_show: "currentView (Region_show v r) = Some v"
  by (simp add: Region_show_def)

lemma currentView_Region_reset: "currentView (Region_reset r) = None"
  by (simp add: Region_reset_def)

text \<open>
  C1. From every state of the layout, each of \<^verbatim>\<open>showImportView\<close>,
  \<^verbatim>\<open>showConnectView\<close>, \<^verbatim>\<open>showSaveTemplateView\<close> and \<^verbatim>\<open>showPreviewView\<close>
  leaves the menu region empty.
\<close>

theorem menu_empty_after_transition:
  "currentView (menuArea (showImportView this)) = None \<and>
   currentView (menuArea (showConnectView args this)) = None \<and>
   currentView (menuArea (showSaveTemplateView elementModel this)) = None \<and>
   currentView (menuArea (showPreviewView templateModel this)) = None"
  by (simp add: transition_defs region_call_defs currentView_Region_reset)

text \<open>
  C5. From every state of the layout, \<^verbatim>\<open>setHeaderDefaultParts\<close> leaves the tools
  region holding the header actions view, the menu region holding the header menu
  view and the logo region holding the logo view.
\<close>

theorem setHeaderDefaultParts_regions:
  "currentView (tools (setHeaderDefaultParts this)) = Some TemplateLibraryHeaderActionsView \<and>
   currentView (menuArea (setHeaderDefaultParts this)) = Some TemplateLibraryHeaderMenuView \<and>
   currentView (logoArea (setHeaderDefaultParts this)) = Some (HeaderLogoView getLogoOptions)"
  by (simp add: transition_defs region_call_defs currentView_Region_show)

text \<open>
  C6. From the default screen, \<^verbatim>\<open>showSaveTemplateView(modelX)\<close> leaves the menu
  region empty and the content region holding the save-template view of
  \<open>modelX\<close>; \<^verbatim>\<open>setHeaderDefaultParts\<close> after it puts the default views back
  into the menu, tools and logo regions and leaves the content region as it was.
\<close>

theorem save_template_then_default_parts:
  assumes "default_screen this"
  shows "currentView (menuArea (showSaveTemplateView modelX this)) = None \<and>
    currentView (modalContent (showSaveTemplateView modelX this))
      = Some (TemplateLibrarySaveTemplateView modelX) \<and>
    currentView (menuArea (setHeaderDefaultParts (showSaveTemplateView modelX this)))
      = Some TemplateLibraryHeaderMenuView \<and>
    currentView (tools (setHeaderDefaultParts (showSaveTemplateView modelX this)))
      = Some TemplateLibraryHeaderActionsView \<and>
    currentView (logoArea (setHeaderDefaultParts (showSaveTemplateView modelX this)))
      = Some (HeaderLogoView getLogoOptions) \<and>
    modalContent (setHeaderDefaultParts (showSaveTemplateView modelX this))
      = modalContent (showSaveTemplateView modelX this)"
  by (simp add: transition_defs region_call_defs currentView_Region_show
      currentView_Region_reset)

theorem save_template_then_default_parts_witness:
  "default_screen (showTemplatesView [[(''title'', ''Hero'')]] (setHeaderDefaultParts initial_layout)) \<and>
   currentView (modalContent (setHeaderDefaultParts (showSaveTemplateView [(''id'', ''7'')]
      (showTemplatesView [[(''title'', ''Hero'')]] (setHeaderDefaultParts initial_layout)))))
     = Some (TemplateLibrarySaveTemplateView [(''id'', ''7'')]) \<and>
   currentView (menuArea (showSaveTemplateView [(''id'', ''7'')]
      (showTemplatesView [[(''title'', ''Hero'')]] (setHeaderDefaultParts initial_layout)))) = None"
proof -
  have d: "default_screen
      (showTemplatesView [[(''title'', ''Hero'')]] (setHeaderDefaultParts initial_layout))"
    by (simp add: default_screen_def transition_defs region_call_defs currentView_Region_show)
  show ?thesis
    using d save_template_then_default_parts [OF d, of "[(''id'', ''7'')]"] by simp
qed

text \<open>
  C4. Each operation of the layout, called twice in a row with the same arguments,
  leaves every region holding the same view as one call does.
\<close>

theorem transitions_idempotent:
  "same_screen (setHeaderDefaultParts (setHeaderDefaultParts this)) (setHeaderDefaultParts this) \<and>
   same_screen (showTemplatesView c (showTemplatesView c this)) (showTemplatesView c this) \<and>
   same_screen (showImportView (showImportView this)) (showImportView this) \<and>
   same_screen (showConnectView args (showConnectView args this)) (showConnectView args this) \<and>
   same_screen (showSaveTemplateView m (showSaveTemplateView m this))
     (showSaveTemplateView m this) \<and>
   same_screen (showPreviewView t (showPreviewView t this)) (showPreviewView t this)"
  by (simp add: same_screen_def transition_defs region_call_defs currentView_Region_show
      currentView_Region_reset)

text \<open>
  C3, as stated: every transition to a screen other than the default one resets the
  menu region before it shows a view in any region. \<^verbatim>\<open>showPreviewView\<close> shows
  the preview in the content region before it resets the menu region.
\<close>

theorem showPreviewView_menu_reset_not_first:
  "\<not> menu_reset_first
       (calls_of (showPreviewView [(''url'', ''https://example.org/t/1'')]) initial_layout)"
  by (simp add: menu_reset_first_def calls_of_def transition_defs region_call_defs
      initial_layout_def)

text \<open>
  C3, amended. \<^verbatim>\<open>showImportView\<close>, \<^verbatim>\<open>showConnectView\<close> and
  \<^verbatim>\<open>showSaveTemplateView\<close> reset the menu region before they show a view in any
  region. \<^verbatim>\<open>showPreviewView\<close> shows the preview in the content region, then
  resets the menu region, then shows the views of the tools and logo regions.
\<close>

theorem menu_reset_order:
  "menu_reset_first (calls_of showImportView this) \<and>
   menu_reset_first (calls_of (showConnectView args) this) \<and>
   menu_reset_first (calls_of (showSaveTemplateView elementModel) this) \<and>
   calls_of (showPreviewView templateModel) this =
     [ShowCall ModalContent (TemplateLibraryPreviewView (map_of templateModel ''url'')),
      ResetCall MenuArea,
      ShowCall Tools (TemplateLibraryHeaderPreviewView templateModel),
      ShowCall LogoArea TemplateLibraryHeaderBackView]"
  by (simp add: menu_reset_first_def calls_of_def transition_defs region_call_defs)

section \<open>Properties of the action button\<close>

lemma foldl_filters_unchanged:
  "(\<forall>f \<in> set fs. f v d = v) \<Longrightarrow> foldl (\<lambda>v f. f v d) v fs = v"
  by (induction fs) simp_all

lemma getTemplateActionButton_unfold:
  "getTemplateActionButton hooks cache render td =
     render (cache (applyFilters hooks action_button_filter (actionButtonViewId td) td))
       \<lparr>buttonText = property buttonTextsFromAccessLevel (accessLevel td)\<rparr>"
  by (simp add: getTemplateActionButton_def)

text \<open>
  C2. Access level 0 gives the identifier of the insert button and the button text
  null; access level 1 gives the identifier of the upsell button and the text
  "Go Pro"; access level 2 gives the identifier of the upsell button and the text
  "Go Expert". The identifier goes through the filters; the button text does not.
\<close>

theorem getTemplateActionButton_levels:
  "(accessLevel td = 0 \<longrightarrow>
      actionButtonViewId td = ''#tmpl-elementor-template-library-insert-button'' \<and>
      getTemplateActionButton hooks cache render td =
        render (cache (applyFilters hooks action_button_filter
                  ''#tmpl-elementor-template-library-insert-button'' td))
          \<lparr>buttonText = JNull\<rparr>) \<and>
   (accessLevel td = 1 \<longrightarrow>
      actionButtonViewId td = ''#tmpl-elementor-template-library-get-pro-button'' \<and>
      getTemplateActionButton hooks cache render td =
        render (cache (applyFilters hooks action_button_filter
                  ''#tmpl-elementor-template-library-get-pro-button'' td))
          \<lparr>buttonText = JString ''Go Pro''\<rparr>) \<and>
   (accessLevel td = 2 \<longrightarrow>
      actionButtonViewId td = ''#tmpl-elementor-template-library-get-pro-button'' \<and>
      getTemplateActionButton hooks cache render td =
        render (cache (applyFilters hooks action_button_filter
                  ''#tmpl-elementor-template-library-get-pro-button'' td))
          \<lparr>buttonText = JString ''Go Expert''\<rparr>)"
  by (simp add: getTemplateActionButton_unfold actionButtonViewId_def
      buttonTextsFromAccessLevel_def property_def gettext_def)

theorem getTemplateActionButton_levels_witness:
  "getTemplateActionButton [] (\<lambda>viewId. viewId) Pair \<lparr>accessLevel = 0\<rparr> =
     (''#tmpl-elementor-template-library-insert-button'', \<lparr>buttonText = JNull\<rparr>) \<and>
   getTemplateActionButton [] (\<lambda>viewId. viewId) Pair \<lparr>accessLevel = 1\<rparr> =
     (''#tmpl-elementor-template-library-get-pro-button'', \<lparr>buttonText = JString ''Go Pro''\<rparr>) \<and>
   getTemplateActionButton [] (\<lambda>viewId. viewId) Pair \<lparr>accessLevel = 2\<rparr> =
     (''#tmpl-elementor-template-library-get-pro-button'',
      \<lparr>buttonText = JString ''Go Expert''\<rparr>)"
  using getTemplateActionButton_levels [of "\<lparr>accessLevel = 0\<rparr>" "[]" "\<lambda>viewId. viewId" Pair]
    getTemplateActionButton_levels [of "\<lparr>accessLevel = 1\<rparr>" "[]" "\<lambda>viewId. viewId" Pair]
    getTemplateActionButton_levels [of "\<lparr>accessLevel = 2\<rparr>" "[]" "\<lambda>viewId. viewId" Pair]
  by (simp add: applyFilters_def filters_of_def)

text \<open>
  C7. The computed identifier is passed, with the template data, through the
  filters registered under the name of the action button filter, in order, and the
  template looked up and rendered is the one of the identifier the chain returns.
  Filters registered under other names play no part. When every filter of the
  chain returns the computed identifier as it is, the template rendered is the one
  of the computed identifier.
\<close>

theorem action_button_filter_chain:
  "getTemplateActionButton hooks cache render td =
     render (cache (foldl (\<lambda>viewId f. f viewId td) (actionButtonViewId td)
                      (filters_of hooks action_button_filter)))
       \<lparr>buttonText = property buttonTextsFromAccessLevel (accessLevel td)\<rparr> \<and>
   (filters_of hooks action_button_filter = filters_of hooks' action_button_filter \<longrightarrow>
      getTemplateActionButton hooks cache render td =
        getTemplateActionButton hooks' cache render td) \<and>
   ((\<forall>f \<in> set (filters_of hooks action_button_filter).
        f (actionButtonViewId td) td = actionButtonViewId td) \<longrightarrow>
      getTemplateActionButton hooks cache render td =
        render (cache (actionButtonViewId td))
          \<lparr>buttonText = property buttonTextsFromAccessLevel (accessLevel td)\<rparr>)"
proof (intro conjI impI)
  show "getTemplateActionButton hooks cache render td =
     render (cache (foldl (\<lambda>viewId f. f viewId td) (actionButtonViewId td)
                      (filters_of hooks action_button_filter)))
       \<lparr>buttonText = property buttonTextsFromAccessLevel (accessLevel td)\<rparr>"
    by (simp add: getTemplateActionButton_unfold applyFilters_def)
next
  assume "filters_of hooks action_button_filter = filters_of hooks' action_button_filter"
  then show "getTemplateActionButton hooks cache render td =
        getTemplateActionButton hooks' cache render td"
    by (simp add: getTemplateActionButton_unfold applyFilters_def)
next
  assume "\<forall>f \<in> set (filters_of hooks action_button_filter).
        f (actionButtonViewId td) td = actionButtonViewId td"
  then have "applyFilters hooks action_button_filter (actionButtonViewId td) td
      = actionButtonViewId td"
    unfolding applyFilters_def by (rule foldl_filters_unchanged)
  then show "getTemplateActionButton hooks cache render td =
        render (cache (actionButtonViewId td))
          \<lparr>buttonText = property buttonTextsFromAccessLevel (accessLevel td)\<rparr>"
    by (simp add: getTemplateActionButton_unfold)
qed

theorem action_button_filter_chain_witness:
  "filters_of [(''some/other/filter'', \<lambda>viewId td. ''#tmpl-other''),
               (action_button_filter, \<lambda>viewId td. viewId)] action_button_filter
     = filters_of [(action_button_filter, \<lambda>viewId (td :: templateData). viewId)]
         action_button_filter \<and>
   getTemplateActionButton
     [(''some/other/filter'', \<lambda>viewId td. ''#tmpl-other''),
      (action_button_filter, \<lambda>viewId td. viewId)]
     (\<lambda>viewId. viewId) Pair \<lparr>accessLevel = 1\<rparr>
     = (''#tmpl-elementor-template-library-get-pro-button'', \<lparr>buttonText = JString ''Go Pro''\<rparr>) \<and>
   getTemplateActionButton
     [(action_button_filter, \<lambda>viewId td. viewId)]
     (\<lambda>viewId. viewId) Pair \<lparr>accessLevel = 1\<rparr>
     = (''#tmpl-elementor-template-library-get-pro-button'', \<lparr>buttonText = JString ''Go Pro''\<rparr>)"
  using action_button_filter_chain
    [of "[(''some/other/filter'', \<lambda>viewId td. ''#tmpl-other''),
          (action_button_filter, \<lambda>viewId td. viewId)]"
        "\<lambda>viewId. viewId" Pair "\<lparr>accessLevel = 1\<rparr>"
        "[(action_button_filter, \<lambda>viewId td. viewId)]"]
  by (simp add: filters_of_def action_button_filter_def actionButtonViewId_def
      buttonTextsFromAccessLevel_def property_def gettext_def getTemplateActionButton_unfold
      applyFilters_def)

text \<open>
  C10. For every access level other than 0 the computed identifier is the one of
  the upsell button. For every access level other than 0, 1 and 2 the table of
  button texts has no entry, the button text is undefined, and the template of the
  identifier the filters return is rendered with it.
\<close>

theorem getTemplateActionButton_other_levels:
  "(accessLevel td \<noteq> 0 \<longrightarrow>
      actionButtonViewId td = ''#tmpl-elementor-template-library-get-pro-button'') \<and>
   (accessLevel td \<notin> {0, 1, 2} \<longrightarrow>
      property buttonTextsFromAccessLevel (accessLevel td) = JUndefined \<and>
      getTemplateActionButton hooks cache render td =
        render (cache (applyFilters hooks action_button_filter
                  ''#tmpl-elementor-template-library-get-pro-button'' td))
          \<lparr>buttonText = JUndefined\<rparr>)"
  by (simp add: getTemplateActionButton_unfold actionButtonViewId_def
      buttonTextsFromAccessLevel_def property_def)

theorem getTemplateActionButton_other_levels_witness:
  "accessLevel \<lparr>accessLevel = 3\<rparr> \<noteq> 0 \<and> accessLevel \<lparr>accessLevel = 3\<rparr> \<notin> {0, 1, 2} \<and>
   getTemplateActionButton [] (\<lambda>viewId. viewId) Pair \<lparr>accessLevel = 3\<rparr> =
     (''#tmpl-elementor-template-library-get-pro-button'', \<lparr>buttonText = JUndefined\<rparr>) \<and>
   getTemplateActionButton [] (\<lambda>viewId. viewId) Pair \<lparr>accessLevel = - 1\<rparr> =
     (''#tmpl-elementor-template-library-get-pro-button'', \<lparr>buttonText = JUndefined\<rparr>)"
  using getTemplateActionButton_other_levels [of "\<lparr>accessLevel = 3\<rparr>" "[]" "\<lambda>viewId. viewId" Pair]
    getTemplateActionButton_other_levels [of "\<lparr>accessLevel = - 1\<rparr>" "[]" "\<lambda>viewId. viewId" Pair]
  by (simp add: applyFilters_def filters_of_def)

end
